theory Spec2Isabelle
  imports Main
begin

section \<open>JavaScript strings\<close>

text \<open>
  A JavaScript string is a sequence of UTF-16 code units, and \<open>length\<close>, the regular
  expressions without the \<open>u\<close> flag and \<open>trim\<close> all work on code units. A string is
  modelled as the list of its code units; \<open>lit\<close> gives the code units of an ASCII literal.
\<close>

type_synonym jsstring = "nat list"

definition lit :: "string \<Rightarrow> jsstring" where
  "lit s = map of_char s"

text \<open>
  The class \<open>\s\<close> of a regular expression, which is also what \<open>String.prototype.trim\<close>
  removes: the WhiteSpace and LineTerminator code points of ECMAScript (tab, LF, VT, FF, CR,
  space, NBSP, U+1680, U+2000 to U+200A, LS, PS, U+202F, U+205F, U+3000, BOM).
\<close>

definition is_space :: "nat \<Rightarrow> bool" where
  "is_space c \<longleftrightarrow>
     c \<in> {9, 10, 11, 12, 13, 32, 160, 5760, 8232, 8233, 8239, 8287, 12288, 65279}
     \<or> (8192 \<le> c \<and> c \<le> 8202)"

definition trim :: "jsstring \<Rightarrow> jsstring" where
  "trim s = rev (dropWhile is_space (rev (dropWhile is_space s)))"

text \<open>The decimal digits of a non-negative integer, as a template literal prints it.\<close>

fun show_nat :: "nat \<Rightarrow> jsstring" where
  "show_nat n = (if n < 10 then [48 + n] else show_nat (n div 10) @ [48 + n mod 10])"

declare show_nat.simps [simp del]

text \<open>
  What a template literal prints for \<open>ms / 1000\<close>: the integer part and, when the division
  leaves a remainder, a point and up to three decimals without trailing zeros. This is the
  shortest decimal that reads back as the same double, which is what Number-to-string
  conversion gives as long as the value has at most 15 significant digits.
\<close>

definition show_seconds :: "nat \<Rightarrow> jsstring" where
  "show_seconds ms =
     (let q = ms div 1000; r = ms mod 1000
      in if r = 0 then show_nat q
         else show_nat q @ [46] @
           (if r mod 100 = 0 then [48 + r div 100]
            else if r mod 10 = 0 then [48 + r div 100, 48 + r div 10 mod 10]
            else [48 + r div 100, 48 + r div 10 mod 10, 48 + r mod 10]))"

section \<open>Thrown values and promises\<close>

text \<open>
  A thrown value is either an \<open>Error\<close> object, with its message and (for the errors of
  Node's system calls) its \<open>code\<close>, or some other value, kept as what \<open>String(...)\<close>
  makes of it.
\<close>

datatype js_error = JsError jsstring "jsstring option" | NonError jsstring

text \<open>\<open>error instanceof Error ? error.message : String(error)\<close>\<close>

fun error_message :: "js_error \<Rightarrow> jsstring" where
  "error_message (JsError m c) = m"
| "error_message (NonError s) = s"

fun err_code :: "js_error \<Rightarrow> jsstring option" where
  "err_code (JsError m c) = c"
| "err_code (NonError s) = None"

text \<open>
  A promise either settles, some milliseconds after it was created, by fulfilling with a
  value or rejecting with a thrown value, or it never settles.
\<close>

datatype 'a outcome = Fulfilled 'a | Rejected js_error

datatype 'a promise = Settles nat "'a outcome" | Never

section \<open>Constants and the timeout guard\<close>

definition CHARACTER_LIMIT :: nat where
  "CHARACTER_LIMIT = 200000"

definition RENDER_TIMEOUT_MS :: nat where
  "RENDER_TIMEOUT_MS = 30000"

text \<open>
  \<open>setTimeout(callback, ms)\<close> of Node runs the callback after \<open>ms\<close> milliseconds; a delay
  below 1 or above \<open>2^31 - 1\<close> is replaced by 1.
\<close>

definition timer_delay :: "nat \<Rightarrow> nat" where
  "timer_delay ms = (if 1 \<le> ms \<and> ms \<le> 2147483647 then ms else 1)"

text \<open>The \<open>Error\<close> that the timer's callback rejects with; the dash is U+2014.\<close>

definition timeout_error :: "jsstring \<Rightarrow> nat \<Rightarrow> js_error" where
  "timeout_error label ms =
     JsError (label @ lit '' timed out after '' @ show_seconds ms @ lit ''s. '' @
              lit ''If you used layout-engine: elk, switch to dagre (or remove the layout setting entirely) '' @
              [8212] @ lit '' '' @
              lit ''ELK is extremely slow in WASM.'') None"

text \<open>
  \<open>withTimeout(promise, ms, label)\<close> races the promise against a second promise whose
  executor calls \<open>setTimeout\<close>. The handle that \<open>setTimeout\<close> returns is dropped and the
  source calls \<open>clearTimeout\<close> nowhere, so two things happen on the event loop whatever
  the order: the promise settles when it does, and the timer's callback runs after the
  delay. \<open>withTimeout_events\<close> lists them in the order of time; when both fall on the same
  millisecond the promise, first in the array given to \<open>Promise.race\<close>, is put first.
\<close>

datatype 'a event = OperationSettles "'a outcome" | TimerFires

definition withTimeout_events :: "'a promise \<Rightarrow> nat \<Rightarrow> (nat \<times> 'a event) list" where
  "withTimeout_events p ms =
     (case p of
        Never \<Rightarrow> [(timer_delay ms, TimerFires)]
      | Settles t r \<Rightarrow>
          if t \<le> timer_delay ms
          then [(t, OperationSettles r), (timer_delay ms, TimerFires)]
          else [(timer_delay ms, TimerFires), (t, OperationSettles r)])"

text \<open>
  \<open>Promise.race\<close> settles with the first of the two to settle; what the later one does
  has no effect on the promise returned.
\<close>

definition withTimeout :: "'a promise \<Rightarrow> nat \<Rightarrow> jsstring \<Rightarrow> 'a promise" where
  "withTimeout p ms label =
     (case withTimeout_events p ms of
        [] \<Rightarrow> Never
      | (t, OperationSettles r) # later \<Rightarrow> Settles t r
      | (t, TimerFires) # later \<Rightarrow> Settles t (Rejected (timeout_error label ms)))"

text \<open>A promise that has not settled when the timer of \<open>ms\<close> milliseconds runs.\<close>

definition misses_deadline :: "'a promise \<Rightarrow> nat \<Rightarrow> bool" where
  "misses_deadline p ms = (case p of Never \<Rightarrow> True | Settles t r \<Rightarrow> timer_delay ms < t)"

section \<open>stripFontFaces\<close>

text \<open>
  \<open>svg.replace(/@font-face\s*\{[^{}]*\}/g, "").replace(/\n{3,}/g, "\n\n")\<close>

  \<open>after_prefix p s\<close> is what follows the literal \<open>p\<close> at the start of \<open>s\<close>.
  \<open>match_block\<close> matches \<open>\s*\{[^{}]*\}\<close> at the start of its argument and
  \<open>match_font_face\<close> the whole pattern, both returning what follows the match. The two
  starred classes are greedy, but the character that has to come next (a brace) is outside
  the class, so giving characters back can never help and the longest run is the only
  candidate.
\<close>

definition not_brace :: "nat \<Rightarrow> bool" where
  "not_brace c \<longleftrightarrow> c \<noteq> 123 \<and> c \<noteq> 125"

fun after_prefix :: "jsstring \<Rightarrow> jsstring \<Rightarrow> jsstring option" where
  "after_prefix [] s = Some s"
| "after_prefix (p # ps) [] = None"
| "after_prefix (p # ps) (c # cs) = (if p = c then after_prefix ps cs else None)"

definition match_block :: "jsstring \<Rightarrow> jsstring option" where
  "match_block r =
     (case dropWhile is_space r of
        [] \<Rightarrow> None
      | c # r' \<Rightarrow>
          if c \<noteq> 123 then None
          else (case dropWhile not_brace r' of
                  [] \<Rightarrow> None
                | d # rest \<Rightarrow> if d = 125 then Some rest else None))"

definition match_font_face :: "jsstring \<Rightarrow> jsstring option" where
  "match_font_face s =
     (case after_prefix (lit ''@font-face'') s of
        None \<Rightarrow> None
      | Some r \<Rightarrow> match_block r)"

lemma length_dropWhile: "length (dropWhile P xs) \<le> length xs"
  by (induction xs) auto

lemma after_prefix_length: "after_prefix p s = Some r \<Longrightarrow> length r + length p = length s"
  by (induction p s rule: after_prefix.induct) (auto split: if_splits)

lemma match_block_length:
  assumes "match_block r = Some rest"
  shows "length rest < length r"
proof -
  from assms obtain r' where 1: "dropWhile is_space r = 123 # r'"
    by (auto simp: match_block_def split: list.splits if_splits)
  with assms have 2: "dropWhile not_brace r' = 125 # rest"
    by (auto simp: match_block_def split: list.splits if_splits)
  have "length (dropWhile is_space r) \<le> length r"
    and "length (dropWhile not_brace r') \<le> length r'"
    by (rule length_dropWhile)+
  with 1 2 show ?thesis by simp
qed

lemma match_font_face_length: "match_font_face s = Some rest \<Longrightarrow> length rest < length s"
  by (auto simp: match_font_face_def split: option.splits
      dest!: match_block_length after_prefix_length)

text \<open>
  The global replacement by the empty string scans from the left: where the pattern
  matches, the match is dropped and the scan goes on after it; elsewhere the character is
  kept. The text that removals bring together is not scanned again.
\<close>

function remove_font_faces :: "jsstring \<Rightarrow> jsstring" where
  "remove_font_faces [] = []"
| "remove_font_faces (c # cs) =
     (case match_font_face (c # cs) of
        Some rest \<Rightarrow> remove_font_faces rest
      | None \<Rightarrow> c # remove_font_faces cs)"
  by pat_completeness auto
termination
  by (relation "measure length") (auto dest: match_font_face_length)

text \<open>
  \<open>replace(/\n{3,}/g, "\n\n")\<close>: a match starts at a line feed that begins at least three
  of them and, being greedy, takes the whole run.
\<close>

function collapse_newlines :: "jsstring \<Rightarrow> jsstring" where
  "collapse_newlines [] = []"
| "collapse_newlines (c # cs) =
     (let k = length (takeWhile (\<lambda>x. x = 10) (c # cs))
      in if 3 \<le> k then 10 # 10 # collapse_newlines (drop k (c # cs))
         else c # collapse_newlines cs)"
  by pat_completeness auto
termination
  by (relation "measure length") auto

definition stripFontFaces :: "jsstring \<Rightarrow> jsstring" where
  "stripFontFaces svg = collapse_newlines (remove_font_faces svg)"

text \<open>Whether the pattern matches somewhere in a string.\<close>

fun contains_font_face :: "jsstring \<Rightarrow> bool" where
  "contains_font_face [] = False"
| "contains_font_face (c # cs) \<longleftrightarrow> match_font_face (c # cs) \<noteq> None \<or> contains_font_face cs"

text \<open>The number of line feeds that a string starts with.\<close>

definition nl_run :: "jsstring \<Rightarrow> nat" where
  "nl_run s = length (takeWhile (\<lambda>x. x = 10) s)"

section \<open>The D2 instance and the inputs of the tools\<close>

text \<open>
  The compiler is the package \<open>@terrastruct/d2\<close>, outside this repository: a \<open>D2\<close> object is
  taken as its two methods, over any type of diagrams \<open>'d\<close> and of render options \<open>'r\<close>.
  The second argument of \<open>compile\<close> is \<open>{ options: compileOptions }\<close> or is left out
  (\<open>None\<close>). The handlers below take the instance that \<open>getD2()\<close> returns.
\<close>

datatype Layout = DAGRE | ELK

record CompileOptions =
  opt_layout :: "Layout option"
  opt_sketch :: "bool option"
  themeID :: "int option"
  darkThemeID :: "int option"
  opt_pad :: "int option"
  opt_center :: "bool option"
  opt_ascii :: "bool option"

record ('d, 'r) CompileResponse =
  diagram :: 'd
  renderOptions :: 'r

record ('d, 'r) D2 =
  compile :: "jsstring \<Rightarrow> CompileOptions option \<Rightarrow> ('d, 'r) CompileResponse promise"
  render :: "'d \<Rightarrow> 'r \<Rightarrow> jsstring promise"

definition getD2 :: "('d, 'r) D2 \<Rightarrow> ('d, 'r) D2 option \<Rightarrow> ('d, 'r) D2 \<times> ('d, 'r) D2 option" where
  "getD2 new_D2 d2Instance =
     (case d2Instance of
        None \<Rightarrow> (new_D2, Some new_D2)
      | Some d2 \<Rightarrow> (d2, Some d2))"

text \<open>
  \<open>ValidateInput\<close> and \<open>FormatInput\<close> have the one field \<open>d2_code\<close>; \<open>RenderInput\<close> adds
  the optional settings. The schemas are checked by the server before a handler runs.
\<close>

record SourceInput =
  d2_code :: jsstring

record RenderInput = SourceInput +
  theme_id :: "int option"
  dark_theme_id :: "int option"
  layout :: "Layout option"
  sketch :: "bool option"
  pad :: "int option"
  center :: "bool option"
  ascii :: "bool option"
  skip_fonts :: "bool option"

definition SourceInputSchema :: "SourceInput \<Rightarrow> bool" where
  "SourceInputSchema params \<longleftrightarrow> 1 \<le> length (d2_code params)"

definition RenderInputSchema :: "RenderInput \<Rightarrow> bool" where
  "RenderInputSchema params \<longleftrightarrow>
     1 \<le> length (d2_code params) \<and> (case pad params of None \<Rightarrow> True | Some n \<Rightarrow> 0 \<le> n)"

text \<open>
  What a handler returns: \<open>content\<close> is always one text item, kept as its text;
  \<open>isError\<close> is false where the source leaves the field out.
\<close>

record ToolResult =
  isError :: bool
  content_text :: jsstring

section \<open>d2_render\<close>

definition render_failure :: "js_error \<Rightarrow> ToolResult" where
  "render_failure e =
     \<lparr>isError = True,
      content_text = lit ''Error rendering D2 diagram: '' @ error_message e @ [10, 10] @
                     lit ''Tip: Use d2_validate to check for syntax errors first.''\<rparr>"

definition size_limit_text :: "nat \<Rightarrow> jsstring" where
  "size_limit_text n =
     lit ''Error: Rendered output is too large ('' @ show_nat n @ lit '' chars, limit '' @
     show_nat CHARACTER_LIMIT @ lit ''). '' @
     lit ''Simplify your diagram, use ascii=true, or use skip_fonts=true for a smaller SVG output.''"

text \<open>
  The options object that the handler builds: each setting of the input that is not
  \<open>undefined\<close> is copied under the compiler's name for it, the others stay unset.
\<close>

definition compileOptions_of :: "RenderInput \<Rightarrow> CompileOptions" where
  "compileOptions_of params =
     \<lparr>opt_layout = layout params, opt_sketch = sketch params,
      themeID = theme_id params, darkThemeID = dark_theme_id params,
      opt_pad = pad params, opt_center = center params, opt_ascii = ascii params\<rparr>"

text \<open>The part of the handler after the two awaits.\<close>

definition render_output :: "RenderInput \<Rightarrow> jsstring \<Rightarrow> ToolResult" where
  "render_output params rendered =
     (let svg = (if skip_fonts params = Some True then stripFontFaces rendered else rendered)
      in if length svg > CHARACTER_LIMIT
         then \<lparr>isError = True, content_text = size_limit_text (length svg)\<rparr>
         else \<lparr>isError = False, content_text = svg\<rparr>)"

text \<open>
  The handler of \<open>d2_render\<close>. An \<open>await\<close> of a promise that never settles never
  resumes: the handler then gives no response, which is the value \<open>None\<close>.
\<close>

definition d2_render :: "('d, 'r) D2 \<Rightarrow> RenderInput \<Rightarrow> ToolResult option" where
  "d2_render d2 params =
     (let compileOptions = compileOptions_of params
      in case withTimeout (compile d2 (d2_code params) (Some compileOptions))
                RENDER_TIMEOUT_MS (lit ''d2_render compile'') of
           Never \<Rightarrow> None
         | Settles t (Rejected e) \<Rightarrow> Some (render_failure e)
         | Settles t (Fulfilled result) \<Rightarrow>
             (case withTimeout (render d2 (diagram result) (renderOptions result))
                     RENDER_TIMEOUT_MS (lit ''d2_render render'') of
                Never \<Rightarrow> None
              | Settles t' (Rejected e) \<Rightarrow> Some (render_failure e)
              | Settles t' (Fulfilled rendered) \<Rightarrow> Some (render_output params rendered)))"

section \<open>d2_validate\<close>

record ValidateOutput =
  valid :: bool
  error :: "jsstring option"

record ValidateResult = ToolResult +
  structuredContent :: ValidateOutput

text \<open>
  \<open>JSON.stringify\<close> on a string (QuoteJSONString): the short escapes, \<open>\uXXXX\<close> with
  lower-case digits for the other control characters and for a surrogate that is not half
  of a pair, every other code unit as it is.
\<close>

definition is_high_surrogate :: "nat \<Rightarrow> bool" where
  "is_high_surrogate c \<longleftrightarrow> 55296 \<le> c \<and> c \<le> 56319"

definition is_low_surrogate :: "nat \<Rightarrow> bool" where
  "is_low_surrogate c \<longleftrightarrow> 56320 \<le> c \<and> c \<le> 57343"

definition hex_digit :: "nat \<Rightarrow> nat" where
  "hex_digit d = (if d < 10 then 48 + d else 87 + d)"

definition unicode_escape :: "nat \<Rightarrow> jsstring" where
  "unicode_escape c =
     [92, 117, hex_digit (c div 4096 mod 16), hex_digit (c div 256 mod 16),
      hex_digit (c div 16 mod 16), hex_digit (c mod 16)]"

fun quote_chars :: "jsstring \<Rightarrow> jsstring" where
  "quote_chars [] = []"
| "quote_chars (c # cs) =
     (if c = 8 then [92, 98] @ quote_chars cs
      else if c = 9 then [92, 116] @ quote_chars cs
      else if c = 10 then [92, 110] @ quote_chars cs
      else if c = 12 then [92, 102] @ quote_chars cs
      else if c = 13 then [92, 114] @ quote_chars cs
      else if c = 34 then [92, 34] @ quote_chars cs
      else if c = 92 then [92, 92] @ quote_chars cs
      else if c < 32 then unicode_escape c @ quote_chars cs
      else if is_high_surrogate c then
        (case cs of
           [] \<Rightarrow> unicode_escape c
         | d # ds \<Rightarrow>
             if is_low_surrogate d then c # d # quote_chars ds
             else unicode_escape c @ quote_chars cs)
      else if is_low_surrogate c then unicode_escape c @ quote_chars cs
      else c # quote_chars cs)"

text \<open>
  \<open>JSON.stringify(output)\<close> for the two shapes of \<open>output\<close>: \<open>{ valid: true }\<close> has no
  \<open>error\<close> property, \<open>{ valid: false, error: msg }\<close> has one.
\<close>

definition JSON_stringify :: "ValidateOutput \<Rightarrow> jsstring" where
  \<open>JSON_stringify output =
     lit ''{"valid":'' @ (if valid output then lit ''true'' else lit ''false'') @
     (case error output of
        None \<Rightarrow> []
      | Some msg \<Rightarrow> lit '',"error":"'' @ quote_chars msg @ lit ''"'') @
     lit ''}''\<close>

definition validate_result :: "ValidateOutput \<Rightarrow> ValidateResult" where
  "validate_result output =
     \<lparr>isError = False, content_text = JSON_stringify output, structuredContent = output\<rparr>"

text \<open>
  The handler of \<open>d2_validate\<close>: \<open>await d2.compile(params.d2_code)\<close> with no second
  argument and no \<open>withTimeout\<close> around it.
\<close>

definition d2_validate :: "('d, 'r) D2 \<Rightarrow> SourceInput \<Rightarrow> ValidateResult option" where
  "d2_validate d2 params =
     (case compile d2 (d2_code params) None of
        Never \<Rightarrow> None
      | Settles t (Fulfilled result) \<Rightarrow>
          Some (validate_result \<lparr>valid = True, error = None\<rparr>)
      | Settles t (Rejected e) \<Rightarrow>
          Some (validate_result \<lparr>valid = False, error = Some (error_message e)\<rparr>))"

section \<open>runD2Binary and d2_format\<close>

text \<open>
  What the child process does after \<open>spawn\<close> is a list of events in the order of their
  arrival: chunks of the two streams (each given as what \<open>toString()\<close> makes of it), the
  \<open>close\<close> event with the exit code or \<open>null\<close>, the \<open>error\<close> event of the child with
  its error, and the \<open>error\<close> event of \<open>child.stdin\<close>, which is how
  \<open>child.stdin.write(stdin, "utf8")\<close> and \<open>child.stdin.end()\<close> fail (with \<open>EPIPE\<close>
  when the child has gone without reading its input). The \<open>close\<close> event of the child
  waits for its three streams to close, so a failed write comes before it. The operating
  system is the function \<open>spawn\<close> from the path, the arguments and the text written to the
  standard input to that list.
\<close>

datatype child_event =
  StdoutData jsstring | StderrData jsstring | Close "int option" | ErrorEvent js_error
  | StdinError js_error

text \<open>
  How an asynchronous call ends: with a value, never, or with an exception that nothing
  catches. Node ends the process on such an exception (the source installs no handler for
  it), so the server answers neither this request nor any later one.
\<close>

datatype 'a run = Done 'a | Pending | Uncaught js_error

record BinaryResult =
  stdout :: jsstring
  stderr :: jsstring
  exitCode :: int

definition binary_not_found :: js_error where
  "binary_not_found =
     JsError (lit ''d2 binary not found. Install d2 from https://d2lang.com or set D2_PATH env var. '' @
              lit ''Note: d2_render and d2_validate work without the binary.'') None"

text \<open>
  The listeners of \<open>runD2Binary\<close>, run over the events with the two accumulators. The
  promise settles at the first \<open>close\<close> or \<open>error\<close> of the child: it resolves
  (\<open>Inr\<close>) or rejects (\<open>Inl\<close>), and the events after that are not looked at. With
  neither of them it never settles. The source puts listeners on \<open>child.stdout\<close>,
  \<open>child.stderr\<close> and \<open>child\<close> and none on \<open>child.stdin\<close>: an \<open>error\<close> event there
  is thrown by Node as an exception outside the promise and outside every \<open>try\<close>.
\<close>

fun on_events :: "child_event list \<Rightarrow> jsstring \<Rightarrow> jsstring \<Rightarrow> (js_error + BinaryResult) run" where
  "on_events [] out err = Pending"
| "on_events (StdoutData d # es) out err = on_events es (out @ d) err"
| "on_events (StderrData d # es) out err = on_events es out (err @ d)"
| "on_events (Close code # es) out err =
     Done (Inr \<lparr>stdout = out, stderr = err,
                exitCode = (case code of None \<Rightarrow> 1 | Some c \<Rightarrow> c)\<rparr>)"
| "on_events (ErrorEvent e # es) out err =
     Done (Inl (if err_code e = Some (lit ''ENOENT'') then binary_not_found else e))"
| "on_events (StdinError e # es) out err = Uncaught e"

text \<open>\<open>process.env.D2_PATH || "d2"\<close>: an unset or empty variable gives the bare name.\<close>

definition d2Path :: "jsstring option \<Rightarrow> jsstring" where
  "d2Path D2_PATH = (case D2_PATH of None \<Rightarrow> lit ''d2'' | Some p \<Rightarrow> if p = [] then lit ''d2'' else p)"

text \<open>
  \<open>runD2Binary\<close> spawns the child, installs the listeners, writes \<open>stdin\<close> to the
  child's input and ends it.
\<close>

definition runD2Binary ::
  "jsstring option \<Rightarrow> (jsstring \<Rightarrow> jsstring list \<Rightarrow> jsstring \<Rightarrow> child_event list) \<Rightarrow>
   jsstring list \<Rightarrow> jsstring \<Rightarrow> (js_error + BinaryResult) run" where
  "runD2Binary D2_PATH spawn args stdin = on_events (spawn (d2Path D2_PATH) args stdin) [] []"

text \<open>
  The handler of \<open>d2_format\<close>. Its \<open>catch\<close> receives what the awaited promise rejects
  with; an uncaught exception does not pass through it.
\<close>

definition d2_format ::
  "jsstring option \<Rightarrow> (jsstring \<Rightarrow> jsstring list \<Rightarrow> jsstring \<Rightarrow> child_event list) \<Rightarrow>
   SourceInput \<Rightarrow> ToolResult run" where
  "d2_format D2_PATH spawn params =
     (case runD2Binary D2_PATH spawn [lit ''fmt'', lit ''-''] (d2_code params) of
        Pending \<Rightarrow> Pending
      | Uncaught e \<Rightarrow> Uncaught e
      | Done (Inl e) \<Rightarrow> Done \<lparr>isError = True, content_text = lit ''Error: '' @ error_message e\<rparr>
      | Done (Inr result) \<Rightarrow>
          if exitCode result \<noteq> 0
          then (let errorMsg =
                      (if stderr result \<noteq> [] then stderr result
                       else if stdout result \<noteq> [] then stdout result
                       else lit ''Unknown error'')
                in Done \<lparr>isError = True,
                         content_text = lit ''Error formatting D2 code: '' @ trim errorMsg\<rparr>)
          else Done \<lparr>isError = False, content_text = stdout result\<rparr>)"

text \<open>The text of the two streams that a list of events carries.\<close>

fun stdout_of :: "child_event list \<Rightarrow> jsstring" where
  "stdout_of [] = []"
| "stdout_of (StdoutData d # es) = d @ stdout_of es"
| "stdout_of (e # es) = stdout_of es"

fun stderr_of :: "child_event list \<Rightarrow> jsstring" where
  "stderr_of [] = []"
| "stderr_of (StderrData d # es) = d @ stderr_of es"
| "stderr_of (e # es) = stderr_of es"

fun is_data :: "child_event \<Rightarrow> bool" where
  "is_data (StdoutData d) = True"
| "is_data (StderrData d) = True"
| "is_data e = False"

section \<open>Stand-ins for the collaborators\<close>

text \<open>
  The compiler and the operating system are outside the repository. The concrete inputs
  below run the handlers against stand-ins: a \<open>D2\<close> object whose two methods return given
  promises, one whose \<open>compile\<close> depends on whether options are passed, one whose
  \<open>render\<close> draws a label in plain-text art when the compile options asked for it, and
  child processes that fail to launch, that exit with a non-zero status after reading their
  input, or that exit with one without reading it.
\<close>

definition plain_input :: "jsstring \<Rightarrow> RenderInput" where
  "plain_input src =
     \<lparr>d2_code = src, theme_id = None, dark_theme_id = None, layout = None, sketch = None,
      pad = None, center = None, ascii = None, skip_fonts = None\<rparr>"

definition stub_D2 ::
  "(unit, unit) CompileResponse promise \<Rightarrow> jsstring promise \<Rightarrow> (unit, unit) D2" where
  "stub_D2 c r = \<lparr>compile = (\<lambda>src opts. c), render = (\<lambda>d ro. r)\<rparr>"

definition compiled :: "(unit, unit) CompileResponse" where
  "compiled = \<lparr>diagram = (), renderOptions = ()\<rparr>"

definition options_sensitive_D2 :: "(unit, unit) D2" where
  "options_sensitive_D2 =
     \<lparr>compile = (\<lambda>src opts. case opts of
                    None \<Rightarrow> Settles 20 (Fulfilled compiled)
                  | Some opt \<Rightarrow> Settles 20 (Rejected (JsError (lit ''layout failed'') None))),
      render = (\<lambda>d ro. Never)\<rparr>"

definition ascii_D2 :: "(bool option, unit) D2" where
  "ascii_D2 =
     \<lparr>compile = (\<lambda>src opts. Settles 20 (Fulfilled
          \<lparr>diagram = (case opts of None \<Rightarrow> None | Some opt \<Rightarrow> opt_ascii opt), renderOptions = ()\<rparr>)),
      render = (\<lambda>d ro. Settles 20 (Fulfilled
          (if d = Some True then lit ''| @font-face {x} |'' else lit ''<svg/>'')))\<rparr>"

definition ascii_input :: "bool option \<Rightarrow> RenderInput" where
  \<open>ascii_input skip =
     \<lparr>d2_code = lit ''a: "@font-face {x}"'', theme_id = None, dark_theme_id = None, layout = None,
      sketch = None, pad = None, center = None, ascii = Some True, skip_fonts = skip\<rparr>\<close>

definition missing_binary :: "jsstring \<Rightarrow> jsstring list \<Rightarrow> jsstring \<Rightarrow> child_event list" where
  "missing_binary path args stdin =
     [ErrorEvent (JsError (lit ''spawn '' @ path @ lit '' ENOENT'') (Some (lit ''ENOENT''))), Close (Some (-2))]"

definition no_permission :: "jsstring \<Rightarrow> jsstring list \<Rightarrow> jsstring \<Rightarrow> child_event list" where
  "no_permission path args stdin =
     [ErrorEvent (JsError (lit ''spawn '' @ path @ lit '' EACCES'') (Some (lit ''EACCES''))), Close (Some (-13))]"

definition failing_fmt :: "jsstring \<Rightarrow> jsstring list \<Rightarrow> jsstring \<Rightarrow> child_event list" where
  "failing_fmt path args stdin =
     [StderrData (lit ''err: -:1:4: '' ), StderrData (lit ''bad'' @ [10]), Close (Some 1)]"

definition exits_unread :: "jsstring \<Rightarrow> jsstring list \<Rightarrow> jsstring \<Rightarrow> child_event list" where
  "exits_unread path args stdin =
     [StdinError (JsError (lit ''write EPIPE'') (Some (lit ''EPIPE''))), Close (Some 1)]"

section \<open>Literals and numbers\<close>

lemma lit_append: "lit a @ lit b = lit (a @ b)"
  by (simp add: lit_def)

lemma length_lit [simp]: "length (lit s) = length s"
  by (simp add: lit_def)

lemma show_seconds_render: "show_seconds RENDER_TIMEOUT_MS = lit ''30''"
  by (simp add: show_seconds_def RENDER_TIMEOUT_MS_def show_nat.simps lit_def)

lemma show_nat_limit: "show_nat CHARACTER_LIMIT = lit ''200000''"
  by (simp add: CHARACTER_LIMIT_def show_nat.simps lit_def)

lemma length_show_nat: "length (show_nat n) \<le> n div 10 + 1"
proof (induction n rule: show_nat.induct)
  case (1 n)
  show ?case
  proof (cases "n < 10")
    case True
    then show ?thesis by (subst show_nat.simps) simp
  next
    case False
    with 1 have "length (show_nat (n div 10)) \<le> n div 10 div 10 + 1" by simp
    moreover have "length (show_nat n) = length (show_nat (n div 10)) + 1"
      using False by (subst show_nat.simps) simp
    moreover from False have "0 < n div 10" by simp
    then have "n div 10 div 10 < n div 10" by (simp add: div_less_dividend)
    then have "n div 10 div 10 + 1 \<le> n div 10" by simp
    ultimately show ?thesis by simp
  qed
qed

section \<open>Properties of stripFontFaces\<close>

lemma nl_run_simps [simp]:
  "nl_run [] = 0"
  "nl_run (c # cs) = (if c = 10 then Suc (nl_run cs) else 0)"
  by (simp_all add: nl_run_def)

lemma drop_nl_run: "drop (nl_run s) s = dropWhile (\<lambda>x. x = 10) s"
  unfolding nl_run_def by (induction s) auto

lemma nl_run_dropWhile [simp]: "nl_run (dropWhile (\<lambda>x. x = 10) s) = 0"
  by (induction s) auto

lemma collapse_long:
  "2 \<le> nl_run cs \<Longrightarrow>
   collapse_newlines (10 # cs) = 10 # 10 # collapse_newlines (dropWhile (\<lambda>x. x = 10) cs)"
  using drop_nl_run [of cs] by (simp add: nl_run_def Let_def)

lemma collapse_short:
  "c \<noteq> 10 \<or> nl_run cs < 2 \<Longrightarrow> collapse_newlines (c # cs) = c # collapse_newlines cs"
  by (auto simp add: nl_run_def Let_def)

declare collapse_newlines.simps(2) [simp del]

lemma collapse_cases [case_names Nil Long Short]:
  assumes "P []"
    and "\<And>cs. 2 \<le> nl_run cs \<Longrightarrow> P (dropWhile (\<lambda>x. x = 10) cs) \<Longrightarrow> P (10 # cs)"
    and "\<And>c cs. c \<noteq> 10 \<or> nl_run cs < 2 \<Longrightarrow> P cs \<Longrightarrow> P (c # cs)"
  shows "P s"
proof (induction s rule: length_induct)
  case (1 xs)
  show ?case
  proof (cases xs)
    case Nil
    with assms(1) show ?thesis by simp
  next
    case (Cons c cs)
    show ?thesis
    proof (cases "c = 10 \<and> 2 \<le> nl_run cs")
      case True
      have "length (dropWhile (\<lambda>x. x = 10) cs) < length xs"
        using Cons length_dropWhile [of "\<lambda>x. x = 10" cs] by simp
      with 1 have "P (dropWhile (\<lambda>x. x = 10) cs)" by blast
      with True Cons assms(2) show ?thesis by blast
    next
      case False
      from 1 Cons have "P cs" by simp
      moreover from False have "c \<noteq> 10 \<or> nl_run cs < 2" by auto
      ultimately show ?thesis using Cons assms(3) by blast
    qed
  qed
qed

lemma nl_run_collapse:
  "nl_run (collapse_newlines s) = (if 3 \<le> nl_run s then 2 else nl_run s)"
proof (induction s rule: collapse_cases)
  case Nil
  show ?case by simp
next
  case (Long cs)
  then show ?case by (simp add: collapse_long)
next
  case (Short c cs)
  then show ?case by (auto simp: collapse_short split: if_splits)
qed

lemma collapse_idem: "collapse_newlines (collapse_newlines s) = collapse_newlines s"
proof (induction s rule: collapse_cases)
  case Nil
  show ?case by simp
next
  case (Long cs)
  let ?z = "collapse_newlines (dropWhile (\<lambda>x. x = 10) cs)"
  have z: "nl_run ?z = 0"
    by (simp add: nl_run_collapse)
  have "collapse_newlines (10 # 10 # ?z) = 10 # collapse_newlines (10 # ?z)"
    by (rule collapse_short) (simp add: z)
  also have "collapse_newlines (10 # ?z) = 10 # collapse_newlines ?z"
    by (rule collapse_short) (simp add: z)
  finally show ?case
    using Long by (simp add: collapse_long)
next
  case (Short c cs)
  have "c \<noteq> 10 \<or> nl_run (collapse_newlines cs) < 2"
    using Short(1) by (auto simp: nl_run_collapse)
  then have "collapse_newlines (c # collapse_newlines cs) = c # collapse_newlines (collapse_newlines cs)"
    by (rule collapse_short)
  with Short show ?case
    by (simp add: collapse_short)
qed

lemma set_collapse: "set (collapse_newlines s) \<subseteq> set s"
proof (induction s rule: collapse_cases)
  case Nil
  show ?case by simp
next
  case (Long cs)
  have "set (dropWhile (\<lambda>x. x = 10) cs) \<subseteq> set cs"
    by (auto dest: set_dropWhileD)
  with Long show ?case
    by (auto simp: collapse_long)
next
  case (Short c cs)
  then show ?case
    by (auto simp: collapse_short)
qed

lemma nl_run_append_Cons: "c \<noteq> 10 \<Longrightarrow> nl_run (a @ c # b) = nl_run a"
  by (induction a) auto

lemma dropWhile_nl_append_Cons:
  "c \<noteq> 10 \<Longrightarrow> dropWhile (\<lambda>x. x = 10) (a @ c # b) = dropWhile (\<lambda>x. x = 10) a @ c # b"
  by (induction a) auto

lemma collapse_append_Cons:
  "c \<noteq> 10 \<Longrightarrow> collapse_newlines (a @ c # b) = collapse_newlines a @ c # collapse_newlines b"
proof (induction a rule: collapse_cases)
  case Nil
  then show ?case by (simp add: collapse_short)
next
  case (Long ds)
  then show ?case
    by (simp add: collapse_long nl_run_append_Cons dropWhile_nl_append_Cons)
next
  case (Short d ds)
  then show ?case
    by (auto simp: collapse_short nl_run_append_Cons)
qed

lemma collapse_hd: "\<exists>z. collapse_newlines (c # cs) = c # z"
  by (cases "c = 10 \<and> 2 \<le> nl_run cs") (auto simp: collapse_long collapse_short)

lemma dropWhile_collapse:
  assumes "P 10"
  shows "dropWhile P (collapse_newlines r) = collapse_newlines (dropWhile P r)"
proof (cases "dropWhile P r")
  case Nil
  then have "\<forall>x\<in>set r. P x" by (simp add: dropWhile_eq_Nil_conv)
  with set_collapse [of r] have "\<forall>x\<in>set (collapse_newlines r). P x" by blast
  then have "dropWhile P (collapse_newlines r) = []" by (simp add: dropWhile_eq_Nil_conv)
  then show ?thesis unfolding Nil by simp
next
  case (Cons c b)
  then have c: "\<not> P c" using hd_dropWhile [of P r] by auto
  with assms have c10: "c \<noteq> 10" by auto
  have r: "r = takeWhile P r @ c # b" using Cons takeWhile_dropWhile_id [of P r] by simp
  have "\<forall>x\<in>set (collapse_newlines (takeWhile P r)). P x"
    using set_collapse [of "takeWhile P r"] by (auto dest: set_takeWhileD)
  then have "dropWhile P (collapse_newlines (takeWhile P r) @ c # collapse_newlines b) = c # collapse_newlines b"
    using c by (simp add: dropWhile_append2)
  moreover have "collapse_newlines r = collapse_newlines (takeWhile P r) @ c # collapse_newlines b"
    using collapse_append_Cons [OF c10, of "takeWhile P r" b] r by simp
  ultimately show ?thesis using Cons c10 by (simp add: collapse_short)
qed

lemma after_prefix_collapse:
  "10 \<notin> set p \<Longrightarrow>
   after_prefix p (collapse_newlines s) = map_option collapse_newlines (after_prefix p s)"
proof (induction p s rule: after_prefix.induct)
  case (1 s)
  show ?case by simp
next
  case (2 p ps)
  show ?case by simp
next
  case (3 p ps c cs)
  obtain z where z: "collapse_newlines (c # cs) = c # z" using collapse_hd by blast
  show ?case
  proof (cases "p = c")
    case True
    with 3 show ?thesis by (simp add: collapse_short)
  next
    case False
    with z show ?thesis by simp
  qed
qed

lemma match_block_collapse:
  "match_block (collapse_newlines r) = map_option collapse_newlines (match_block r)"
proof -
  have sp: "dropWhile is_space (collapse_newlines r) = collapse_newlines (dropWhile is_space r)"
    by (rule dropWhile_collapse) (simp add: is_space_def)
  have nb: "dropWhile not_brace (collapse_newlines t) = collapse_newlines (dropWhile not_brace t)" for t
    by (rule dropWhile_collapse) (simp add: not_brace_def)
  show ?thesis
  proof (cases "dropWhile is_space r")
    case Nil
    show ?thesis unfolding match_block_def sp Nil by simp
  next
    case outer: (Cons c r')
    then have "\<not> is_space c" using hd_dropWhile [of is_space r] by auto
    then have c: "c \<noteq> 10" by (auto simp: is_space_def)
    show ?thesis
    proof (cases "dropWhile not_brace r'")
      case Nil
      show ?thesis unfolding match_block_def sp outer using c by (simp add: nb Nil collapse_short del: dropWhile_eq_Nil_conv)
    next
      case (Cons x rest)
      then have "\<not> not_brace x" using hd_dropWhile [of not_brace r'] by auto
      then have x: "x \<noteq> 10" by (auto simp: not_brace_def)
      show ?thesis unfolding match_block_def sp outer using c x by (simp add: nb Cons collapse_short)
    qed
  qed
qed

lemma match_font_face_collapse:
  "match_font_face (collapse_newlines s) = map_option collapse_newlines (match_font_face s)"
  unfolding match_font_face_def
  by (subst after_prefix_collapse) (auto simp: lit_def match_block_collapse split: option.splits)

lemma contains_dropWhile: "contains_font_face (dropWhile P s) \<Longrightarrow> contains_font_face s"
  by (induction s) (auto split: if_splits)

lemma match_font_face_nl [simp]: "match_font_face (10 # s) = None"
  by (simp add: match_font_face_def lit_def)

lemma contains_collapse: "contains_font_face (collapse_newlines s) \<Longrightarrow> contains_font_face s"
proof (induction s rule: collapse_cases)
  case Nil
  then show ?case by simp
next
  case (Long cs)
  then show ?case
    by (auto simp: collapse_long dest: contains_dropWhile)
next
  case (Short c cs)
  from Short(1) have eq: "collapse_newlines (c # cs) = c # collapse_newlines cs"
    by (rule collapse_short)
  from Short(3) have "match_font_face (collapse_newlines (c # cs)) \<noteq> None \<or> contains_font_face (collapse_newlines cs)"
    by (simp add: eq)
  then show ?case
    using Short(2) by (auto simp: match_font_face_collapse)
qed

lemma remove_no_font_face: "\<not> contains_font_face s \<Longrightarrow> remove_font_faces s = s"
  by (induction s) auto

lemma strip_idem_if:
  "\<not> contains_font_face (remove_font_faces x) \<Longrightarrow> stripFontFaces (stripFontFaces x) = stripFontFaces x"
proof -
  assume "\<not> contains_font_face (remove_font_faces x)"
  then have "\<not> contains_font_face (collapse_newlines (remove_font_faces x))"
    using contains_collapse by blast
  then have "remove_font_faces (collapse_newlines (remove_font_faces x)) = collapse_newlines (remove_font_faces x)"
    by (rule remove_no_font_face)
  then show ?thesis
    by (simp add: stripFontFaces_def collapse_idem)
qed


lemma contains_dropWhile_nl:
  "contains_font_face s \<Longrightarrow> contains_font_face (dropWhile (\<lambda>x. x = 10) s)"
  by (induction s) auto

lemma contains_collapse_conv: "contains_font_face s \<Longrightarrow> contains_font_face (collapse_newlines s)"
proof (induction s rule: collapse_cases)
  case Nil
  then show ?case by simp
next
  case (Long cs)
  from Long(3) have "contains_font_face cs" by simp
  then have "contains_font_face (dropWhile (\<lambda>x. x = 10) cs)" by (rule contains_dropWhile_nl)
  with Long show ?case by (simp add: collapse_long)
next
  case (Short c cs)
  from Short(1) have eq: "collapse_newlines (c # cs) = c # collapse_newlines cs"
    by (rule collapse_short)
  from Short(3) consider "match_font_face (c # cs) \<noteq> None" | "contains_font_face cs" by auto
  then show ?case
  proof cases
    case 1
    then have "match_font_face (collapse_newlines (c # cs)) \<noteq> None"
      by (simp add: match_font_face_collapse)
    then show ?thesis by (simp add: eq)
  next
    case 2
    with Short(2) show ?thesis by (simp add: eq)
  qed
qed

lemma length_remove: "length (remove_font_faces s) \<le> length s"
proof (induction s rule: remove_font_faces.induct)
  case 1
  show ?case by simp
next
  case (2 c cs)
  show ?case
  proof (cases "match_font_face (c # cs)")
    case None
    with 2 show ?thesis by simp
  next
    case (Some rest)
    with 2 match_font_face_length [OF Some] show ?thesis by simp
  qed
qed

lemma length_remove_less: "contains_font_face s \<Longrightarrow> length (remove_font_faces s) < length s"
proof (induction s)
  case Nil
  then show ?case by simp
next
  case (Cons c cs)
  show ?case
  proof (cases "match_font_face (c # cs)")
    case None
    with Cons show ?thesis by simp
  next
    case (Some rest)
    with length_remove [of rest] match_font_face_length [OF Some] show ?thesis by simp
  qed
qed

lemma length_collapse: "length (collapse_newlines s) \<le> length s"
proof (induction s rule: collapse_cases)
  case Nil
  show ?case by simp
next
  case (Long cs)
  have "length (dropWhile (\<lambda>x. x = 10) cs) + nl_run cs = length cs"
    unfolding nl_run_def using takeWhile_dropWhile_id [of "\<lambda>x. x = 10" cs]
    by (metis add.commute length_append)
  with Long show ?case by (simp add: collapse_long)
next
  case (Short c cs)
  then show ?case by (simp add: collapse_short)
qed

text \<open>
  C2 (as amended). Applying \<open>stripFontFaces\<close> twice gives the same as applying it once
  exactly for the inputs whose block removal leaves no \<open>@font-face\<close> block behind: the
  removal is a single pass from the left, and the text on both sides of a removed block can
  join into a new block, which only the second application removes. The collapse of the
  line feeds is a fixed point and neither makes nor destroys a block.
\<close>

theorem stripFontFaces_idempotent_iff:
  "stripFontFaces (stripFontFaces x) = stripFontFaces x \<longleftrightarrow>
   \<not> contains_font_face (remove_font_faces x)"
proof
  assume idem: "stripFontFaces (stripFontFaces x) = stripFontFaces x"
  show "\<not> contains_font_face (remove_font_faces x)"
  proof
    assume "contains_font_face (remove_font_faces x)"
    then have "contains_font_face (stripFontFaces x)"
      unfolding stripFontFaces_def by (rule contains_collapse_conv)
    then have "length (remove_font_faces (stripFontFaces x)) < length (stripFontFaces x)"
      by (rule length_remove_less)
    moreover have "length (stripFontFaces (stripFontFaces x)) \<le> length (remove_font_faces (stripFontFaces x))"
      unfolding stripFontFaces_def [of "collapse_newlines (remove_font_faces x)"]
      unfolding stripFontFaces_def by (rule length_collapse)
    ultimately show False using idem by simp
  qed
next
  assume "\<not> contains_font_face (remove_font_faces x)"
  then show "stripFontFaces (stripFontFaces x) = stripFontFaces x" by (rule strip_idem_if)
qed

text \<open>
  An input with a block and a run of four line feeds, where the first pass leaves no block.
\<close>

theorem stripFontFaces_idempotent_iff_witness:
  "stripFontFaces (stripFontFaces (lit ''a@font-face {b}'' @ [10, 10, 10, 10] @ lit ''c''))
     = stripFontFaces (lit ''a@font-face {b}'' @ [10, 10, 10, 10] @ lit ''c'')
   \<and> stripFontFaces (lit ''a@font-face {b}'' @ [10, 10, 10, 10] @ lit ''c'') = lit ''a'' @ [10, 10] @ lit ''c''"
proof -
  have r: "remove_font_faces (lit ''a@font-face {b}'' @ [10, 10, 10, 10] @ lit ''c'') = lit ''a'' @ [10, 10, 10, 10] @ lit ''c''"
    by (simp add: lit_def match_font_face_def match_block_def is_space_def not_brace_def)
  have "\<not> contains_font_face (lit ''a'' @ [10, 10, 10, 10] @ lit ''c'')"
    by (simp add: lit_def match_font_face_def)
  with r stripFontFaces_idempotent_iff [of "lit ''a@font-face {b}'' @ [10, 10, 10, 10] @ lit ''c''"]
  show ?thesis
    by (simp add: stripFontFaces_def) (simp add: lit_def collapse_long collapse_short)
qed

text \<open>
  C2 as stated fails: in \<open>@font-@font-face{}face{}\<close> the only match of the first pass is
  the inner block, and what is left is a block again.
\<close>

theorem stripFontFaces_idempotent_counterexample:
  "stripFontFaces (stripFontFaces (lit ''@font-@font-face{}face{}''))
     \<noteq> stripFontFaces (lit ''@font-@font-face{}face{}'')"
proof -
  have 1: "stripFontFaces (lit ''@font-@font-face{}face{}'') = lit ''@font-face{}''"
    by (simp add: stripFontFaces_def lit_def match_font_face_def match_block_def is_space_def
        not_brace_def collapse_short)
  have 2: "stripFontFaces (lit ''@font-face{}'') = []"
    by (simp add: stripFontFaces_def lit_def match_font_face_def match_block_def is_space_def
        not_brace_def)
  show ?thesis unfolding 1 2 by (simp add: lit_def)
qed

section \<open>The timeout guard\<close>

lemma timer_delay_render [simp]: "timer_delay RENDER_TIMEOUT_MS = 30000"
  by (simp add: timer_delay_def RENDER_TIMEOUT_MS_def)

lemma withTimeout_in_time:
  "t \<le> timer_delay ms \<Longrightarrow> withTimeout (Settles t r) ms label = Settles t r"
  by (simp add: withTimeout_def withTimeout_events_def)

lemma withTimeout_missed:
  "misses_deadline p ms \<Longrightarrow>
   withTimeout p ms label = Settles (timer_delay ms) (Rejected (timeout_error label ms))"
  by (auto simp: withTimeout_def withTimeout_events_def misses_deadline_def split: promise.splits)

lemma withTimeout_settles: "withTimeout p ms label \<noteq> Never"
  by (auto simp: withTimeout_def withTimeout_events_def split: promise.splits)

lemma timeout_error_render:
  "timeout_error label RENDER_TIMEOUT_MS =
     JsError (label @ lit '' timed out after 30s. If you used layout-engine: elk, switch to dagre (or remove the layout setting entirely) '' @
              [8212] @ lit '' ELK is extremely slow in WASM.'') None"
  by (simp add: timeout_error_def show_seconds_render) (simp add: lit_def)

text \<open>
  C6 (as amended). When the wrapped operation settles before the timer is due, the promise
  returned settles at that moment with the operation's own result or failure. The timer is
  not cancelled: its callback still runs when the delay has passed, after the operation
  has settled, and its rejection has no effect on the promise returned.
\<close>

theorem withTimeout_operation_first:
  assumes "t < timer_delay ms"
  shows "withTimeout (Settles t r) ms label = Settles t r
       \<and> withTimeout_events (Settles t r) ms = [(t, OperationSettles r), (timer_delay ms, TimerFires)]"
  using assms by (simp add: withTimeout_def withTimeout_events_def)

text \<open>An operation that rejects after 5 ms under the 30 s deadline.\<close>

theorem withTimeout_operation_first_witness:
  "(5::nat) < timer_delay 30000
   \<and> withTimeout (Settles 5 (Rejected (NonError (lit ''boom'')))) 30000 (lit ''d2_render compile'')
       = (Settles 5 (Rejected (NonError (lit ''boom''))) :: nat promise)
   \<and> withTimeout_events (Settles 5 (Rejected (NonError (lit ''boom''))) :: nat promise) 30000
       = [(5, OperationSettles (Rejected (NonError (lit ''boom'')))), (timer_delay 30000, TimerFires)]"
proof -
  have h: "(5::nat) < timer_delay 30000" by (simp add: timer_delay_def)
  from withTimeout_operation_first [OF h] h show ?thesis by blast
qed

text \<open>
  C6 as stated fails: for an operation that settles after 5 ms, the timer of the render
  deadline still fires at 30000 ms.
\<close>

theorem timer_still_fires_counterexample:
  "(5::nat) < timer_delay RENDER_TIMEOUT_MS
   \<and> (30000, TimerFires) \<in> set (withTimeout_events (Settles 5 (Fulfilled (1::nat))) RENDER_TIMEOUT_MS)"
  by (simp add: withTimeout_events_def)

section \<open>The render tool\<close>

text \<open>
  The handler awaits only promises that went through \<open>withTimeout\<close>, so it always
  responds.
\<close>

lemma d2_render_responds: "\<exists>r. d2_render d2 params = Some r"
  by (auto simp: d2_render_def Let_def withTimeout_settles split: promise.splits outcome.splits)

lemma d2_render_rendered:
  assumes "compile d2 (d2_code params) (Some (compileOptions_of params)) = Settles t (Fulfilled result)"
    and "t \<le> 30000"
    and "render d2 (diagram result) (renderOptions result) = Settles t' (Fulfilled rendered)"
    and "t' \<le> 30000"
  shows "d2_render d2 params = Some (render_output params rendered)"
  using assms by (simp add: d2_render_def withTimeout_in_time)

lemma size_limit_text_eq:
  "size_limit_text n =
     lit ''Error: Rendered output is too large ('' @ show_nat n @
     lit '' chars, limit 200000). Simplify your diagram, use ascii=true, or use skip_fonts=true for a smaller SVG output.''"
  unfolding size_limit_text_def show_nat_limit
  by (simp only: lit_append) simp

lemma length_size_limit_text: "length (size_limit_text n) \<le> n div 10 + 200"
proof -
  have "length (size_limit_text n) = length (show_nat n) + 147"
    by (simp add: size_limit_text_eq)
  with length_show_nat [of n] show ?thesis by linarith
qed

text \<open>
  C1 (as amended). Both compiler calls of the render tool go through \<open>withTimeout\<close>
  with the deadline of 30000 ms and a label that names the phase: when the compile call
  has not settled by the deadline the tool answers with the failure labelled
  \<open>d2_render compile\<close>, when the compile call was in time and the render call has not
  settled by the deadline, with the failure labelled \<open>d2_render render\<close>; the message
  gives the label and the deadline as \<open>30s\<close>.
\<close>

theorem d2_render_calls_guarded:
  "(misses_deadline (compile d2 (d2_code params) (Some (compileOptions_of params))) RENDER_TIMEOUT_MS \<longrightarrow>
      d2_render d2 params =
        Some (render_failure (timeout_error (lit ''d2_render compile'') RENDER_TIMEOUT_MS)))
   \<and> (compile d2 (d2_code params) (Some (compileOptions_of params)) = Settles t (Fulfilled result)
        \<and> t \<le> 30000
        \<and> misses_deadline (render d2 (diagram result) (renderOptions result)) RENDER_TIMEOUT_MS \<longrightarrow>
      d2_render d2 params =
        Some (render_failure (timeout_error (lit ''d2_render render'') RENDER_TIMEOUT_MS)))
   \<and> RENDER_TIMEOUT_MS = 30000
   \<and> timeout_error label RENDER_TIMEOUT_MS =
        JsError (label @ lit '' timed out after 30s. If you used layout-engine: elk, switch to dagre (or remove the layout setting entirely) '' @
                 [8212] @ lit '' ELK is extremely slow in WASM.'') None"
proof (intro conjI impI)
  assume "misses_deadline (compile d2 (d2_code params) (Some (compileOptions_of params))) RENDER_TIMEOUT_MS"
  then show "d2_render d2 params =
      Some (render_failure (timeout_error (lit ''d2_render compile'') RENDER_TIMEOUT_MS))"
    by (simp add: d2_render_def withTimeout_missed)
next
  assume a: "compile d2 (d2_code params) (Some (compileOptions_of params)) = Settles t (Fulfilled result)
        \<and> t \<le> 30000
        \<and> misses_deadline (render d2 (diagram result) (renderOptions result)) RENDER_TIMEOUT_MS"
  then show "d2_render d2 params =
      Some (render_failure (timeout_error (lit ''d2_render render'') RENDER_TIMEOUT_MS))"
    by (simp add: d2_render_def withTimeout_missed withTimeout_in_time)
next
  show "RENDER_TIMEOUT_MS = 30000" by (simp add: RENDER_TIMEOUT_MS_def)
next
  show "timeout_error label RENDER_TIMEOUT_MS =
        JsError (label @ lit '' timed out after 30s. If you used layout-engine: elk, switch to dagre (or remove the layout setting entirely) '' @
                 [8212] @ lit '' ELK is extremely slow in WASM.'') None"
    by (rule timeout_error_render)
qed

text \<open>
  A compile call that never settles, and a render call that settles 45 s after a compile
  call that took 20 ms.
\<close>

theorem d2_render_calls_guarded_witness:
  "misses_deadline (compile (stub_D2 Never Never) (d2_code (plain_input (lit ''a -> b'')))
       (Some (compileOptions_of (plain_input (lit ''a -> b''))))) RENDER_TIMEOUT_MS
   \<and> d2_render (stub_D2 Never Never) (plain_input (lit ''a -> b'')) =
       Some (render_failure (timeout_error (lit ''d2_render compile'') RENDER_TIMEOUT_MS))
   \<and> misses_deadline (render (stub_D2 (Settles 20 (Fulfilled compiled)) (Settles 45000 (Fulfilled (lit ''<svg/>''))))
       (diagram compiled) (renderOptions compiled)) RENDER_TIMEOUT_MS
   \<and> d2_render (stub_D2 (Settles 20 (Fulfilled compiled)) (Settles 45000 (Fulfilled (lit ''<svg/>''))))
        (plain_input (lit ''a -> b'')) =
       Some (render_failure (timeout_error (lit ''d2_render render'') RENDER_TIMEOUT_MS))"
proof -
  let ?p = "plain_input (lit ''a -> b'')"
  let ?slow = "stub_D2 (Settles 20 (Fulfilled compiled)) (Settles 45000 (Fulfilled (lit ''<svg/>'')))"
  have 1: "misses_deadline (compile (stub_D2 Never Never) (d2_code ?p) (Some (compileOptions_of ?p))) RENDER_TIMEOUT_MS"
    by (simp add: stub_D2_def misses_deadline_def)
  have 2: "compile ?slow (d2_code ?p) (Some (compileOptions_of ?p)) = Settles 20 (Fulfilled compiled)
        \<and> (20::nat) \<le> 30000
        \<and> misses_deadline (render ?slow (diagram compiled) (renderOptions compiled)) RENDER_TIMEOUT_MS"
    by (simp add: stub_D2_def misses_deadline_def)
  from 1 2 d2_render_calls_guarded [of "stub_D2 Never Never" ?p]
    d2_render_calls_guarded [of ?slow ?p 20 compiled]
  show ?thesis by blast
qed

text \<open>
  C1 as stated fails for the validate tool, whose compile call is awaited as it is: a
  compile call that fulfils after 40 s, past the deadline, gives the verdict
  \<open>valid: true\<close> and not a timeout failure, and with a compile call that never settles
  the tool never responds.
\<close>

theorem d2_validate_unguarded_counterexample:
  "misses_deadline (compile (stub_D2 (Settles 40000 (Fulfilled compiled)) Never) (lit ''a -> b'') None)
       RENDER_TIMEOUT_MS
   \<and> d2_validate (stub_D2 (Settles 40000 (Fulfilled compiled)) Never) \<lparr>d2_code = lit ''a -> b''\<rparr> =
       Some (validate_result \<lparr>valid = True, error = None\<rparr>)
   \<and> misses_deadline (compile (stub_D2 Never Never) (lit ''a -> b'') None) RENDER_TIMEOUT_MS
   \<and> d2_validate (stub_D2 Never Never) \<lparr>d2_code = lit ''a -> b''\<rparr> = None"
  by (simp add: stub_D2_def misses_deadline_def d2_validate_def)

text \<open>
  C4. When both calls were in time and the output after the optional font stripping is
  longer than 200000 code units, the tool returns the error that gives the length and the
  limit and suggests \<open>ascii=true\<close> or \<open>skip_fonts=true\<close>; what it returns is not the
  output, and is shorter than it.
\<close>

theorem d2_render_size_limit:
  assumes "compile d2 (d2_code params) (Some (compileOptions_of params)) = Settles t (Fulfilled result)"
    and "t \<le> 30000"
    and "render d2 (diagram result) (renderOptions result) = Settles t' (Fulfilled rendered)"
    and "t' \<le> 30000"
    and "svg = (if skip_fonts params = Some True then stripFontFaces rendered else rendered)"
    and "200000 < length svg"
  shows "d2_render d2 params =
           Some \<lparr>isError = True,
                 content_text =
                   lit ''Error: Rendered output is too large ('' @ show_nat (length svg) @
                   lit '' chars, limit 200000). Simplify your diagram, use ascii=true, or use skip_fonts=true for a smaller SVG output.''\<rparr>
       \<and> (\<forall>r. d2_render d2 params = Some r \<longrightarrow> content_text r \<noteq> svg \<and> length (content_text r) < length svg)"
proof -
  have out: "d2_render d2 params = Some (render_output params rendered)"
    using assms(1-4) by (rule d2_render_rendered)
  have ro: "render_output params rendered = \<lparr>isError = True, content_text = size_limit_text (length svg)\<rparr>"
    using assms(5,6) by (simp add: render_output_def CHARACTER_LIMIT_def)
  have "length (size_limit_text (length svg)) \<le> length svg div 10 + 200"
    by (rule length_size_limit_text)
  with assms(6) have short: "length (size_limit_text (length svg)) < length svg" by linarith
  then have "size_limit_text (length svg) \<noteq> svg" by auto
  with out ro short show ?thesis
    unfolding size_limit_text_eq by simp
qed

text \<open>An output of 200001 code units.\<close>

theorem d2_render_size_limit_witness:
  "d2_render (stub_D2 (Settles 20 (Fulfilled compiled)) (Settles 300 (Fulfilled (replicate 200001 97))))
      (plain_input (lit ''a -> b'')) =
     Some \<lparr>isError = True,
           content_text =
             lit ''Error: Rendered output is too large ('' @ show_nat 200001 @
             lit '' chars, limit 200000). Simplify your diagram, use ascii=true, or use skip_fonts=true for a smaller SVG output.''\<rparr>"
proof -
  let ?d2 = "stub_D2 (Settles 20 (Fulfilled compiled)) (Settles 300 (Fulfilled (replicate 200001 97)))"
  let ?p = "plain_input (lit ''a -> b'')"
  have 1: "compile ?d2 (d2_code ?p) (Some (compileOptions_of ?p)) = Settles 20 (Fulfilled compiled)"
    by (simp add: stub_D2_def)
  have 2: "render ?d2 (diagram compiled) (renderOptions compiled) = Settles 300 (Fulfilled (replicate 200001 97))"
    by (simp add: stub_D2_def)
  have 3: "replicate 200001 (97::nat) = (if skip_fonts ?p = Some True then stripFontFaces (replicate 200001 97) else replicate 200001 97)"
    by (simp add: plain_input_def)
  have 4: "200000 < length (replicate 200001 (97::nat))" by simp
  from d2_render_size_limit [OF 1 _ 2 _ 3 4] show ?thesis by simp
qed

text \<open>
  C9. The comparison with the limit is strict: an output of exactly 200000 code units is
  returned as it is, and the tool returns an error exactly when the output is longer than
  200000.
\<close>

theorem d2_render_limit_strict:
  assumes "compile d2 (d2_code params) (Some (compileOptions_of params)) = Settles t (Fulfilled result)"
    and "t \<le> 30000"
    and "render d2 (diagram result) (renderOptions result) = Settles t' (Fulfilled rendered)"
    and "t' \<le> 30000"
    and "svg = (if skip_fonts params = Some True then stripFontFaces rendered else rendered)"
  shows "(length svg = 200000 \<longrightarrow>
            d2_render d2 params = Some \<lparr>isError = False, content_text = svg\<rparr>)
       \<and> (\<forall>r. d2_render d2 params = Some r \<longrightarrow> (isError r \<longleftrightarrow> 200000 < length svg))"
proof -
  have "d2_render d2 params = Some (render_output params rendered)"
    using assms(1-4) by (rule d2_render_rendered)
  with assms(5) show ?thesis
    by (auto simp: render_output_def CHARACTER_LIMIT_def Let_def split: if_splits)
qed

text \<open>Outputs of 200000 and of 200001 code units.\<close>

theorem d2_render_limit_strict_witness:
  "d2_render (stub_D2 (Settles 20 (Fulfilled compiled)) (Settles 300 (Fulfilled (replicate 200000 97))))
      (plain_input (lit ''a -> b'')) =
     Some \<lparr>isError = False, content_text = replicate 200000 97\<rparr>
   \<and> (\<exists>r. d2_render (stub_D2 (Settles 20 (Fulfilled compiled)) (Settles 300 (Fulfilled (replicate 200001 97))))
            (plain_input (lit ''a -> b'')) = Some r \<and> isError r)"
proof -
  let ?d2 = "\<lambda>n. stub_D2 (Settles 20 (Fulfilled compiled)) (Settles 300 (Fulfilled (replicate n (97::nat))))"
  let ?p = "plain_input (lit ''a -> b'')"
  have 1: "compile (?d2 n) (d2_code ?p) (Some (compileOptions_of ?p)) = Settles 20 (Fulfilled compiled)" for n
    by (simp add: stub_D2_def)
  have 2: "render (?d2 n) (diagram compiled) (renderOptions compiled) = Settles 300 (Fulfilled (replicate n 97))" for n
    by (simp add: stub_D2_def)
  have 3: "replicate n (97::nat) = (if skip_fonts ?p = Some True then stripFontFaces (replicate n 97) else replicate n 97)" for n
    by (simp add: plain_input_def)
  from d2_render_limit_strict [OF 1 _ 2 _ 3, of 200000] d2_render_limit_strict [OF 1 _ 2 _ 3, of 200001]
    d2_render_responds [of "?d2 200001" ?p]
  show ?thesis by auto
qed

text \<open>
  C5 fails on the code. The handler strips whenever \<open>skip_fonts\<close> is true, whatever
  \<open>ascii\<close> is: for a shape whose label reads like a font block, rendered as plain-text
  art, the request with \<open>ascii\<close> and \<open>skip_fonts\<close> both true returns the art with the
  label cut out, while the same request without \<open>skip_fonts\<close> returns it whole. The
  request satisfies the input schema.
\<close>

theorem d2_render_ascii_skip_fonts:
  "RenderInputSchema (ascii_input (Some True))
   \<and> d2_render ascii_D2 (ascii_input (Some True)) =
       Some \<lparr>isError = False, content_text = lit ''|  |''\<rparr>
   \<and> d2_render ascii_D2 (ascii_input None) =
       Some \<lparr>isError = False, content_text = lit ''| @font-face {x} |''\<rparr>"
proof -
  have s: "stripFontFaces (lit ''| @font-face {x} |'') = lit ''|  |''"
    by (simp add: stripFontFaces_def lit_def match_font_face_def match_block_def is_space_def
        not_brace_def collapse_short)
  have len: "length (lit ''|  |'') \<le> CHARACTER_LIMIT"
    "length (lit ''| @font-face {x} |'') \<le> CHARACTER_LIMIT"
    by (simp_all add: CHARACTER_LIMIT_def)
  have schema: "RenderInputSchema (ascii_input (Some True))"
    by (simp add: RenderInputSchema_def ascii_input_def)
  show ?thesis
    using len schema
    by (simp add: d2_render_def ascii_D2_def ascii_input_def compileOptions_of_def
        withTimeout_in_time render_output_def s)
qed

section \<open>The validate tool\<close>




text \<open>
  C10. The validate tool calls \<open>compile\<close> with the source alone. Its verdict is
  \<open>valid: true\<close> exactly when that call fulfils and \<open>valid: false\<close> exactly when it
  rejects, and its whole response is the same for every compiler that does the same on the
  source without options, whatever the compiler does when options are passed.
\<close>

theorem d2_validate_default_options:
  "((\<exists>r. d2_validate d2 params = Some r \<and> valid (structuredContent r)) \<longleftrightarrow>
      (\<exists>t result. compile d2 (d2_code params) None = Settles t (Fulfilled result)))
   \<and> ((\<exists>r. d2_validate d2 params = Some r \<and> \<not> valid (structuredContent r)) \<longleftrightarrow>
      (\<exists>t e. compile d2 (d2_code params) None = Settles t (Rejected e)))
   \<and> (\<forall>d2'. compile d2' (d2_code params) None = compile d2 (d2_code params) None \<longrightarrow>
        d2_validate d2' params = d2_validate d2 params)"
  by (auto simp: d2_validate_def validate_result_def split: promise.splits outcome.splits)

text \<open>
  A compiler that rejects every call with options validates like one that ignores them.
\<close>

theorem d2_validate_default_options_witness:
  "compile options_sensitive_D2 (lit ''a -> b'') None
     = compile (stub_D2 (Settles 20 (Fulfilled compiled)) Never) (lit ''a -> b'') None
   \<and> d2_validate options_sensitive_D2 \<lparr>d2_code = lit ''a -> b''\<rparr>
     = d2_validate (stub_D2 (Settles 20 (Fulfilled compiled)) Never) \<lparr>d2_code = lit ''a -> b''\<rparr>
   \<and> (\<exists>r. d2_validate options_sensitive_D2 \<lparr>d2_code = lit ''a -> b''\<rparr> = Some r
          \<and> valid (structuredContent r))"
proof -
  let ?p = "\<lparr>d2_code = lit ''a -> b''\<rparr>"
  have 1: "compile options_sensitive_D2 (d2_code ?p) None
      = compile (stub_D2 (Settles 20 (Fulfilled compiled)) Never) (d2_code ?p) None"
    by (simp add: options_sensitive_D2_def stub_D2_def)
  have 2: "\<exists>t result. compile options_sensitive_D2 (d2_code ?p) None = Settles t (Fulfilled result)"
    by (simp add: options_sensitive_D2_def)
  from d2_validate_default_options [of "stub_D2 (Settles 20 (Fulfilled compiled)) Never" ?p] 1
  have "d2_validate options_sensitive_D2 ?p = d2_validate (stub_D2 (Settles 20 (Fulfilled compiled)) Never) ?p"
    by blast
  moreover from d2_validate_default_options [of options_sensitive_D2 ?p] 2
  have "\<exists>r. d2_validate options_sensitive_D2 ?p = Some r \<and> valid (structuredContent r)"
    by blast
  ultimately show ?thesis using 1 by simp
qed

section \<open>The format tool\<close>

lemma on_events_data:
  "\<forall>e\<in>set pre. is_data e \<Longrightarrow>
   on_events (pre @ es) out err = on_events es (out @ stdout_of pre) (err @ stderr_of pre)"
proof (induction pre arbitrary: out err)
  case Nil
  show ?case by simp
next
  case (Cons e pre)
  then show ?case by (cases e) simp_all
qed

text \<open>
  C7. When the first event of the child that is not a chunk of output is \<open>error\<close>, the
  promise of \<open>runD2Binary\<close> rejects: with the error whose message names
  \<open>https://d2lang.com\<close> and the variable \<open>D2_PATH\<close> when the code of the launch failure
  is \<open>ENOENT\<close>, and with the launch failure itself, unchanged, otherwise.
\<close>

theorem runD2Binary_launch_failure:
  assumes "spawn (d2Path D2_PATH) args stdin = pre @ ErrorEvent e # later"
    and "\<forall>ev\<in>set pre. is_data ev"
  shows "runD2Binary D2_PATH spawn args stdin =
           Done (Inl (if err_code e = Some (lit ''ENOENT'')
                      then JsError (lit ''d2 binary not found. Install d2 from https://d2lang.com or set D2_PATH env var. Note: d2_render and d2_validate work without the binary.'') None
                      else e))"
  using assms
  by (simp add: runD2Binary_def on_events_data binary_not_found_def lit_append)

text \<open>
  A path with no executable behind it, and an executable that may not be run.
\<close>

theorem runD2Binary_launch_failure_witness:
  "runD2Binary (Some (lit ''/nonexistent/d2'')) missing_binary [lit ''fmt'', lit ''-''] (lit ''a->b'') =
     Done (Inl (JsError (lit ''d2 binary not found. Install d2 from https://d2lang.com or set D2_PATH env var. Note: d2_render and d2_validate work without the binary.'') None))
   \<and> runD2Binary None no_permission [lit ''fmt'', lit ''-''] (lit ''a->b'') =
     Done (Inl (JsError (lit ''spawn d2 EACCES'') (Some (lit ''EACCES''))))"
proof -
  have 1: "missing_binary (d2Path (Some (lit ''/nonexistent/d2''))) [lit ''fmt'', lit ''-''] (lit ''a->b'')
      = [] @ ErrorEvent (JsError (lit ''spawn /nonexistent/d2 ENOENT'') (Some (lit ''ENOENT''))) # [Close (Some (-2))]"
    by (simp add: missing_binary_def d2Path_def lit_append) (simp add: lit_def)
  have 2: "no_permission (d2Path None) [lit ''fmt'', lit ''-''] (lit ''a->b'')
      = [] @ ErrorEvent (JsError (lit ''spawn d2 EACCES'') (Some (lit ''EACCES''))) # [Close (Some (-13))]"
    by (simp add: no_permission_def d2Path_def lit_append)
  have d: "\<forall>ev\<in>set ([] :: child_event list). is_data ev" by simp
  have ne: "lit ''EACCES'' \<noteq> lit ''ENOENT''" by (simp add: lit_def)
  from runD2Binary_launch_failure
         [where spawn = missing_binary and D2_PATH = "Some (lit ''/nonexistent/d2'')" and pre = "[]", OF 1 d]
       runD2Binary_launch_failure [where spawn = no_permission and D2_PATH = None and pre = "[]", OF 2 d] ne
  show ?thesis by simp
qed

text \<open>
  When the first event of the child that is not a chunk of output is \<open>close\<close> with a
  status other than 0 (a missing status counts as 1), the format tool returns an error
  result whose text is \<open>Error formatting D2 code: \<close> followed by the trimmed text of the
  error stream, or of the output stream when the error stream gave nothing, or of
  \<open>Unknown error\<close> when both gave nothing.
\<close>

lemma d2_format_nonzero_exit:
  assumes "spawn (d2Path D2_PATH) [lit ''fmt'', lit ''-''] (d2_code params) = pre @ Close code # later"
    and "\<forall>ev\<in>set pre. is_data ev"
    and "code \<noteq> Some 0"
  shows "d2_format D2_PATH spawn params =
           Done \<lparr>isError = True,
                 content_text = lit ''Error formatting D2 code: '' @
                   trim (if stderr_of pre \<noteq> [] then stderr_of pre
                         else if stdout_of pre \<noteq> [] then stdout_of pre
                         else lit ''Unknown error'')\<rparr>"
  using assms
  by (cases code) (simp_all add: d2_format_def runD2Binary_def on_events_data)

text \<open>
  C8 fails on the code. A formatter that reads its input, reports a syntax error in two
  chunks and exits with 1 gives the formatting error with the trimmed text of the error
  stream. An executable that exits with 1 without reading its input makes the write to
  \<open>child.stdin\<close> fail with \<open>EPIPE\<close>; \<open>child.stdin\<close> has no \<open>error\<close> listener, so
  the format call ends in an uncaught exception and returns no formatting error. The
  request satisfies the input schema.
\<close>

theorem d2_format_stdin_unhandled:
  "SourceInputSchema \<lparr>d2_code = lit ''a->''\<rparr>
   \<and> d2_format (Some (lit ''/bin/false'')) exits_unread \<lparr>d2_code = lit ''a->''\<rparr> =
       Uncaught (JsError (lit ''write EPIPE'') (Some (lit ''EPIPE'')))
   \<and> d2_format None failing_fmt \<lparr>d2_code = lit ''a->''\<rparr> =
       Done \<lparr>isError = True, content_text = lit ''Error formatting D2 code: err: -:1:4: bad''\<rparr>"
proof -
  let ?p = "\<lparr>d2_code = lit ''a->''\<rparr>"
  have schema: "SourceInputSchema ?p"
    by (simp add: SourceInputSchema_def)
  have crash: "d2_format (Some (lit ''/bin/false'')) exits_unread ?p =
      Uncaught (JsError (lit ''write EPIPE'') (Some (lit ''EPIPE'')))"
    by (simp add: d2_format_def runD2Binary_def exits_unread_def)
  have 1: "failing_fmt (d2Path None) [lit ''fmt'', lit ''-''] (d2_code ?p)
      = [StderrData (lit ''err: -:1:4: '' ), StderrData (lit ''bad'' @ [10])] @ Close (Some 1) # []"
    by (simp add: failing_fmt_def)
  have d1: "\<forall>ev\<in>set [StderrData (lit ''err: -:1:4: '' ), StderrData (lit ''bad'' @ [10])]. is_data ev"
    by simp
  have t1: "trim (lit ''err: -:1:4: '' @ lit ''bad'' @ [10]) = lit ''err: -:1:4: bad''"
    by (simp add: trim_def lit_def is_space_def)
  from d2_format_nonzero_exit [where spawn = failing_fmt and D2_PATH = None and params = ?p, OF 1 d1] t1
  have "d2_format None failing_fmt ?p =
      Done \<lparr>isError = True, content_text = lit ''Error formatting D2 code: err: -:1:4: bad''\<rparr>"
    by (simp add: lit_append)
  with schema crash show ?thesis by simp
qed

end
